theory Spec2Isabelle
  imports Complex_Main "HOL-Library.AList"
begin

section \<open>Python values and exceptions\<close>

text \<open>
  The program is Python. Its floats are modelled as \<^typ>\<open>real\<close> (no rounding, no NaN and
  no infinities), its unbounded integers as \<^typ>\<open>int\<close>. Values of type \<open>Any\<close> (the
  contents of opportunity dictionaries and of decoded JSON) are \<open>pyval\<close>; a dictionary
  with string keys is an association list read with \<open>map_of\<close>, in insertion order.
  \<open>PTime\<close> is a \<open>datetime\<close>, as seconds.
\<close>

datatype pyval =
    PNone
  | PBool bool
  | PNum real
  | PStr string
  | PTime real
  | PList "pyval list"
  | PDict "(string \<times> pyval) list"

type_synonym pydict = "(string \<times> pyval) list"

datatype error =
    TypeError
  | ValueError
  | AttributeError
  | KeyError
  | ZeroDivisionError
  | FlashbotsError
  | TransportError
  | NotConnected

text \<open>\<open>d.get(k, default)\<close>.\<close>

definition dict_get :: "pydict \<Rightarrow> string \<Rightarrow> pyval \<Rightarrow> pyval" where
  "dict_get d k dflt = (case map_of d k of None \<Rightarrow> dflt | Some v \<Rightarrow> v)"

text \<open>The numeric value of a number or a bool; nothing else compares or multiplies with a float.\<close>

fun py_num :: "pyval \<Rightarrow> real option" where
  "py_num (PNum r) = Some r"
| "py_num (PBool b) = Some (if b then 1 else 0)"
| "py_num _ = None"

text \<open>Truthiness, as \<open>not v\<close> and \<open>if v\<close> read it.\<close>

fun truthy :: "pyval \<Rightarrow> bool" where
  "truthy PNone = False"
| "truthy (PBool b) = b"
| "truthy (PNum r) = (r \<noteq> 0)"
| "truthy (PStr s) = (s \<noteq> [])"
| "truthy (PTime t) = True"
| "truthy (PList xs) = (xs \<noteq> [])"
| "truthy (PDict d) = (d \<noteq> [])"

text \<open>Lists and dicts are unhashable: using one as a dictionary key raises TypeError.\<close>

fun hashable :: "pyval \<Rightarrow> bool" where
  "hashable (PList xs) = False"
| "hashable (PDict d) = False"
| "hashable _ = True"

section \<open>StrategySelector (utils/advanced_analytics.py)\<close>

record StrategySelector =
  gas_threshold_high :: real
  gas_threshold_medium :: real
  volatility_threshold :: real
  mempool_volume_high :: real

definition StrategySelector_init :: StrategySelector where
  "StrategySelector_init =
     \<lparr>gas_threshold_high = 100, gas_threshold_medium = 60,
      volatility_threshold = 10, mempool_volume_high = 1000\<rparr>"

text \<open>
  \<open>select_strategy\<close> on float arguments: no comparison can raise, so the \<open>except\<close> branch
  (which returns "skip") is not taken.
\<close>

definition select_strategy :: "StrategySelector \<Rightarrow> real \<Rightarrow> real \<Rightarrow> real \<Rightarrow> string" where
  "select_strategy self mempool_tx_rate gas_price_gwei token_price_volatility =
     (if gas_price_gwei \<ge> gas_threshold_high self
         \<or> token_price_volatility \<ge> volatility_threshold self
      then ''skip''
      else if mempool_tx_rate \<ge> mempool_volume_high self
              \<and> gas_price_gwei < gas_threshold_medium self
      then ''multi_hop''
      else ''simple'')"

text \<open>
  \<open>get_strategy_confidence\<close>. The three additive adjustments, each an \<open>if\<close>/\<open>elif\<close> of
  the source on one field.
\<close>

definition gas_adjustment :: "real \<Rightarrow> real" where
  "gas_adjustment gas_price =
     (if gas_price < 30 then 0.2 else if gas_price > 80 then - 0.2 else 0)"

definition volatility_adjustment :: "real \<Rightarrow> real" where
  "volatility_adjustment volatility =
     (if volatility < 5 then 0.2 else if volatility > 15 then - 0.2 else 0)"

definition mempool_adjustment :: "real \<Rightarrow> real" where
  "mempool_adjustment mempool_volume = (if mempool_volume > 500 then 0.1 else 0)"

text \<open>
  The market conditions are a dict; a field is read with \<open>get(key, 0)\<close>. A value that is
  not a number makes the comparison raise, and the \<open>except\<close> branch returns 0.0.
\<close>

definition confidence_body :: "string \<Rightarrow> pydict \<Rightarrow> error + real" where
  "confidence_body strategy market_conditions =
     (if strategy = ''skip'' then Inr 0
      else if market_conditions = [] then Inr 0.5
      else
        case py_num (dict_get market_conditions ''gas_price_gwei'' (PNum 0)) of
          None \<Rightarrow> Inl TypeError
        | Some gas_price \<Rightarrow>
        case py_num (dict_get market_conditions ''token_price_volatility'' (PNum 0)) of
          None \<Rightarrow> Inl TypeError
        | Some volatility \<Rightarrow>
        case py_num (dict_get market_conditions ''mempool_tx_rate'' (PNum 0)) of
          None \<Rightarrow> Inl TypeError
        | Some mempool_volume \<Rightarrow>
        Inr (max 0 (min 1 (0.5 + gas_adjustment gas_price
               + volatility_adjustment volatility + mempool_adjustment mempool_volume))))"

definition get_strategy_confidence :: "string \<Rightarrow> pydict \<Rightarrow> real" where
  "get_strategy_confidence strategy market_conditions =
     (case confidence_body strategy market_conditions of Inl e \<Rightarrow> 0 | Inr c \<Rightarrow> c)"

text \<open>
  The confidence as the specification words it: 0 for "skip", otherwise 0.5 plus the
  adjustments of the fields that are present, clamped to the unit interval; a missing
  field contributes no adjustment.
\<close>

definition spec_adjust :: "pydict \<Rightarrow> string \<Rightarrow> (real \<Rightarrow> real) \<Rightarrow> real" where
  "spec_adjust mc k f =
     (case map_of mc k of None \<Rightarrow> 0
      | Some v \<Rightarrow> (case py_num v of None \<Rightarrow> 0 | Some r \<Rightarrow> f r))"

definition spec_confidence :: "string \<Rightarrow> pydict \<Rightarrow> real" where
  "spec_confidence strategy mc =
     (if strategy = ''skip'' then 0
      else max 0 (min 1 (0.5
        + spec_adjust mc ''gas_price_gwei'' gas_adjustment
        + spec_adjust mc ''token_price_volatility'' volatility_adjustment
        + spec_adjust mc ''mempool_tx_rate'' mempool_adjustment)))"

text \<open>The dict in which every field that is missing has the value 0.\<close>

definition zero_defaults :: pydict where
  "zero_defaults =
     [(''gas_price_gwei'', PNum 0), (''token_price_volatility'', PNum 0),
      (''mempool_tx_rate'', PNum 0)]"

section \<open>AdvancedAnalytics (utils/advanced_analytics.py)\<close>

record OpportunityScore =
  total_score :: real
  profit_potential :: real
  risk_score :: real
  execution_probability :: real
  market_conditions :: real
  gas_efficiency :: real
  competition_level :: real
  confidence_interval :: "real \<times> real"

text \<open>The two attributes of the analytics engine that scoring reads.\<close>

record AdvancedAnalytics =
  success_rates :: "(string \<times> real) list"
  volatility_regime :: string

definition AdvancedAnalytics_init :: AdvancedAnalytics where
  "AdvancedAnalytics_init = \<lparr>success_rates = [], volatility_regime = ''normal''\<rparr>"

text \<open>
  \<open>float(v)\<close>. Python's parsing of a string is the parameter \<open>float_of_str\<close>; \<open>None\<close>,
  lists, dicts and datetimes raise TypeError, an unparsable string ValueError.
\<close>

definition py_float :: "(string \<Rightarrow> real option) \<Rightarrow> pyval \<Rightarrow> error + real" where
  "py_float float_of_str v =
     (case v of
        PNum r \<Rightarrow> Inr r
      | PBool b \<Rightarrow> Inr (if b then 1 else 0)
      | PStr s \<Rightarrow> (case float_of_str s of None \<Rightarrow> Inl ValueError | Some r \<Rightarrow> Inr r)
      | _ \<Rightarrow> Inl TypeError)"

text \<open>\<open>for x in v\<close>: the elements of a list, the characters of a string, the keys of a dict.\<close>

definition py_iter :: "pyval \<Rightarrow> error + pyval list" where
  "py_iter v =
     (case v of
        PList xs \<Rightarrow> Inr xs
      | PStr s \<Rightarrow> Inr (map (\<lambda>c. PStr [c]) s)
      | PDict d \<Rightarrow> Inr (map (\<lambda>kv. PStr (fst kv)) d)
      | _ \<Rightarrow> Inl TypeError)"

definition calculate_profit_score :: "real \<Rightarrow> real \<Rightarrow> real \<Rightarrow> real" where
  "calculate_profit_score expected_profit amount_in gas_estimate =
     (if expected_profit \<le> 0 \<or> amount_in \<le> 0 then 0
      else let net_profit = expected_profit - gas_estimate in
        if net_profit \<le> 0 then 0
        else let roi = net_profit / amount_in in
          if roi < 0.001 then 0.1
          else if roi < 0.01 then 0.3
          else if roi < 0.05 then 0.6
          else if roi < 0.1 then 0.8
          else min 1 (0.8 + (roi - 0.1) * 2))"

text \<open>The placeholders of the class, constants in the source.\<close>

definition get_token_volatility :: "pyval \<Rightarrow> real" where
  "get_token_volatility token = 0.05"

definition assess_liquidity_risk :: "pydict \<Rightarrow> real" where
  "assess_liquidity_risk opportunity = 0.2"

text \<open>\<open>risk_map.get(strategy_type, 0.3)\<close>: an unhashable key raises.\<close>

definition get_strategy_risk :: "pyval \<Rightarrow> error + real" where
  "get_strategy_risk strategy_type =
     (if \<not> hashable strategy_type then Inl TypeError
      else case strategy_type of
        PStr s \<Rightarrow> Inr (case map_of
          [(''arbitrage'', 0.1), (''front_run'', 0.3), (''back_run'', 0.2),
           (''sandwich'', 0.5), (''flashloan_arbitrage'', 0.15), (''liquidation'', 0.25)] s
          of None \<Rightarrow> 0.3 | Some r \<Rightarrow> r)
      | _ \<Rightarrow> Inr 0.3)"

text \<open>
  \<open>_calculate_risk_score\<close>. It calls \<open>self._get_competition_level\<close>, a method that the
  class does not define, so the call is the parameter \<open>get_competition_level\<close>; in the
  source as it stands the attribute lookup raises AttributeError
  (\<open>missing_competition_level\<close>).
\<close>

definition missing_competition_level :: "pydict \<Rightarrow> error + real" where
  "missing_competition_level opportunity = Inl AttributeError"

definition calculate_risk_score :: "(pydict \<Rightarrow> error + real) \<Rightarrow> pydict \<Rightarrow> error + real" where
  "calculate_risk_score get_competition_level opportunity =
     (case py_iter (dict_get opportunity ''tokens'' (PList [])) of
        Inl e \<Rightarrow> Inl e
      | Inr tokens \<Rightarrow>
        let rf1 = concat (map (\<lambda>token.
                    let volatility = get_token_volatility token in
                    if volatility \<noteq> 0 \<and> volatility > 0.1 then [0.3] else []) tokens);
            rf2 = rf1 @ [assess_liquidity_risk opportunity]
        in case py_num (dict_get opportunity ''slippage_estimate'' (PNum 0.01)) of
          None \<Rightarrow> Inl TypeError
        | Some slippage \<Rightarrow>
          let rf3 = (if slippage > 0.05 then rf2 @ [0.4] else rf2)
          in case get_competition_level opportunity of
            Inl e \<Rightarrow> Inl e
          | Inr competition \<Rightarrow>
            let rf4 = rf3 @ [competition * 0.3]
            in case get_strategy_risk (dict_get opportunity ''type'' (PStr ''arbitrage'')) of
              Inl e \<Rightarrow> Inl e
            | Inr strategy_risk \<Rightarrow> Inr (min 1 (sum_list (rf4 @ [strategy_risk]))))"

definition calculate_execution_probability :: "AdvancedAnalytics \<Rightarrow> pydict \<Rightarrow> error + real" where
  "calculate_execution_probability self opportunity =
     (let strategy_type = dict_get opportunity ''type'' (PStr ''arbitrage'') in
      if \<not> hashable strategy_type then Inl TypeError
      else
        let success_rate = (case strategy_type of
               PStr s \<Rightarrow> (case map_of (success_rates self) s of None \<Rightarrow> 0.5 | Some r \<Rightarrow> r)
             | _ \<Rightarrow> 0.5);
            factors = [success_rate, 0.7, 0.8, 0.9]
        in Inr (sum_list factors / real (length factors)))"

definition calculate_market_conditions_score :: real where
  "calculate_market_conditions_score = sum_list [0.6, 0.7, 0.6, 0.5] / 4"

definition calculate_gas_efficiency_score :: "real \<Rightarrow> real \<Rightarrow> real" where
  "calculate_gas_efficiency_score expected_profit gas_estimate =
     (if expected_profit \<le> 0 \<or> gas_estimate \<le> 0 then 0
      else let gas_ratio = gas_estimate / expected_profit in
        if gas_ratio < 0.05 then 1
        else if gas_ratio < 0.1 then 0.8
        else if gas_ratio < 0.2 then 0.6
        else if gas_ratio < 0.5 then 0.3
        else 0)"

text \<open>No similar transactions are found (placeholder), so the first factor is 0.\<close>

definition calculate_competition_score :: real where
  "calculate_competition_score = sum_list [min 1 (0 * 0.2), 0.3, 0.4] / 3"

record weights =
  w_profit :: real
  w_risk :: real
  w_execution :: real
  w_market :: real
  w_gas :: real
  w_competition :: real

definition base_weights :: weights where
  "base_weights =
     \<lparr>w_profit = 0.3, w_risk = 0.2, w_execution = 0.2,
      w_market = 0.15, w_gas = 0.1, w_competition = 0.05\<rparr>"

definition get_opportunity_weights :: "pyval \<Rightarrow> weights" where
  "get_opportunity_weights opportunity_type =
     (if opportunity_type = PStr ''flashloan_arbitrage''
      then base_weights\<lparr>w_profit := 0.4, w_risk := 0.15\<rparr>
      else if opportunity_type = PStr ''sandwich''
      then base_weights\<lparr>w_risk := 0.3, w_competition := 0.15\<rparr>
      else if opportunity_type = PStr ''arbitrage''
      then base_weights\<lparr>w_execution := 0.25\<rparr>
      else base_weights)"

definition weights_sum :: "weights \<Rightarrow> real" where
  "weights_sum w = w_profit w + w_risk w + w_execution w + w_market w + w_gas w + w_competition w"

definition calculate_confidence_interval ::
    "AdvancedAnalytics \<Rightarrow> pydict \<Rightarrow> real \<Rightarrow> real \<times> real" where
  "calculate_confidence_interval self opportunity base_score =
     (let u1 = 0.1 + (if \<not> truthy (dict_get opportunity ''price_data_quality'' (PBool True))
                      then 0.1 else 0);
          u2 = u1 + (if \<not> truthy (dict_get opportunity ''liquidity_data_quality'' (PBool True))
                     then 0.1 else 0);
          uncertainty = u2 + (if volatility_regime self = ''high'' then 0.15 else 0)
      in (max 0 (base_score - uncertainty), min 1 (base_score + uncertainty)))"

text \<open>
  \<open>score_opportunity\<close>: the body of the \<open>try\<close> block, with every exception as a value,
  and the \<open>except\<close> branch that replaces any of them by the fallback score.
\<close>

definition score_body ::
    "(string \<Rightarrow> real option) \<Rightarrow> (pydict \<Rightarrow> error + real) \<Rightarrow> AdvancedAnalytics \<Rightarrow> pydict
      \<Rightarrow> error + OpportunityScore" where
  "score_body float_of_str get_competition_level self opportunity =
     (let opportunity_type = dict_get opportunity ''type'' (PStr ''arbitrage'') in
      case py_float float_of_str (dict_get opportunity ''expected_profit_eth'' (PNum 0)) of
        Inl e \<Rightarrow> Inl e
      | Inr expected_profit \<Rightarrow>
      case py_float float_of_str (dict_get opportunity ''amount_in'' (PNum 0)) of
        Inl e \<Rightarrow> Inl e
      | Inr amount_in \<Rightarrow>
      case py_float float_of_str (dict_get opportunity ''gas_estimate_eth'' (PNum 0)) of
        Inl e \<Rightarrow> Inl e
      | Inr gas_estimate \<Rightarrow>
      let profit_score = calculate_profit_score expected_profit amount_in gas_estimate in
      case calculate_risk_score get_competition_level opportunity of
        Inl e \<Rightarrow> Inl e
      | Inr risk \<Rightarrow>
      case calculate_execution_probability self opportunity of
        Inl e \<Rightarrow> Inl e
      | Inr execution_score \<Rightarrow>
      let market_score = calculate_market_conditions_score;
          gas_score = calculate_gas_efficiency_score expected_profit gas_estimate;
          competition_score = calculate_competition_score;
          w = get_opportunity_weights opportunity_type;
          total = profit_score * w_profit w + risk * w_risk w
                + execution_score * w_execution w + market_score * w_market w
                + gas_score * w_gas w + competition_score * w_competition w
      in Inr \<lparr>total_score = total, profit_potential = profit_score, risk_score = risk,
               execution_probability = execution_score, market_conditions = market_score,
               gas_efficiency = gas_score, competition_level = competition_score,
               confidence_interval = calculate_confidence_interval self opportunity total\<rparr>)"

definition fallback_score :: OpportunityScore where
  "fallback_score =
     \<lparr>total_score = 0, profit_potential = 0, risk_score = 1, execution_probability = 0,
      market_conditions = 0, gas_efficiency = 0, competition_level = 1,
      confidence_interval = (0, 0)\<rparr>"

definition score_opportunity ::
    "(string \<Rightarrow> real option) \<Rightarrow> (pydict \<Rightarrow> error + real) \<Rightarrow> AdvancedAnalytics \<Rightarrow> pydict
      \<Rightarrow> OpportunityScore" where
  "score_opportunity float_of_str get_competition_level self opportunity =
     (case score_body float_of_str get_competition_level self opportunity of
        Inl e \<Rightarrow> fallback_score
      | Inr s \<Rightarrow> s)"

section \<open>OpportunityDetector (engines/opportunity_detector.py)\<close>

text \<open>
  The dataclass. The fields that \<open>_score_opportunities\<close> copies from the opportunity dict
  unconverted hold whatever the dict held, so they are \<open>pyval\<close>.
\<close>

record DetectedOpportunity =
  opp_id :: string
  opp_type :: pyval
  chain_id :: int
  tokens :: pyval
  expected_profit_eth :: pyval
  amount_in :: pyval
  gas_estimate_eth :: pyval
  confidence_score :: real
  risk_level :: string
  execution_priority :: int
  timestamp :: pyval
  metadata :: pydict
  analytics_score :: "OpportunityScore option"

text \<open>
  The detector's state: the store (a dict keyed by id, in insertion order), the history,
  the blacklist and the two thresholds. \<open>min_profit_threshold\<close> comes from the settings.
\<close>

record OpportunityDetector =
  detector_chain_id :: int
  analytics :: AdvancedAnalytics
  detected_opportunities :: "(string \<times> DetectedOpportunity) list"
  opportunity_history :: "DetectedOpportunity list"
  blacklisted_opportunities :: "string set"
  total_detected :: nat
  min_profit_threshold :: real
  min_confidence_score :: real

definition OpportunityDetector_init :: "int \<Rightarrow> real \<Rightarrow> OpportunityDetector" where
  "OpportunityDetector_init chain min_profit_eth =
     \<lparr>detector_chain_id = chain, analytics = AdvancedAnalytics_init,
      detected_opportunities = [], opportunity_history = [],
      blacklisted_opportunities = {}, total_detected = 0,
      min_profit_threshold = min_profit_eth, min_confidence_score = 0.6\<rparr>"

definition get_risk_level :: "real \<Rightarrow> string" where
  "get_risk_level r =
     (if r < 0.25 then ''low''
      else if r < 0.5 then ''medium''
      else if r < 0.75 then ''high''
      else ''extreme'')"

text \<open>\<open>int(x)\<close> of a float truncates towards zero.\<close>

definition py_int :: "real \<Rightarrow> int" where
  "py_int r = (if r \<ge> 0 then \<lfloor>r\<rfloor> else \<lceil>r\<rceil>)"

definition calculate_execution_priority :: "pydict \<Rightarrow> OpportunityScore \<Rightarrow> int" where
  "calculate_execution_priority opp_data score =
     (let base_priority = py_int (total_score score * 10);
          strategy_type = dict_get opp_data ''type'' (PStr ''arbitrage'');
          p1 = (if strategy_type = PStr ''flashloan_arbitrage'' then base_priority + 2
                else if strategy_type = PStr ''sandwich'' then base_priority - 1
                else base_priority);
          p2 = (if truthy (dict_get opp_data ''time_sensitive'' (PBool False))
                then p1 + 1 else p1)
      in max 1 (min 10 p2))"

text \<open>
  \<open>_score_opportunities\<close>. The id is an MD5 digest of the type, chain id, tokens and
  timestamp: the parameter \<open>generate_opportunity_id\<close>. \<open>now\<close> is \<open>datetime.now()\<close>.
  Nothing in the loop body raises on a dict (\<open>score_opportunity\<close> catches its own
  errors), so every opportunity dict yields one record.
\<close>

definition score_one ::
    "(string \<Rightarrow> real option) \<Rightarrow> (pydict \<Rightarrow> error + real) \<Rightarrow> (pydict \<Rightarrow> string) \<Rightarrow> real
      \<Rightarrow> OpportunityDetector \<Rightarrow> pydict \<Rightarrow> DetectedOpportunity" where
  "score_one float_of_str get_competition_level generate_opportunity_id now self opp_data =
     (let score = score_opportunity float_of_str get_competition_level (analytics self) opp_data
      in \<lparr>opp_id = generate_opportunity_id opp_data,
          opp_type = dict_get opp_data ''type'' (PStr ''unknown''),
          chain_id = detector_chain_id self,
          tokens = dict_get opp_data ''tokens'' (PList []),
          expected_profit_eth = dict_get opp_data ''expected_profit_eth'' (PNum 0),
          amount_in = dict_get opp_data ''amount_in'' (PNum 0),
          gas_estimate_eth = dict_get opp_data ''gas_estimate_eth'' (PNum 0),
          confidence_score = total_score score,
          risk_level = get_risk_level (risk_score score),
          execution_priority = calculate_execution_priority opp_data score,
          timestamp = dict_get opp_data ''timestamp'' (PTime now),
          metadata = opp_data,
          analytics_score = Some score\<rparr>)"

definition score_opportunities ::
    "(string \<Rightarrow> real option) \<Rightarrow> (pydict \<Rightarrow> error + real) \<Rightarrow> (pydict \<Rightarrow> string) \<Rightarrow> real
      \<Rightarrow> OpportunityDetector \<Rightarrow> pydict list \<Rightarrow> DetectedOpportunity list" where
  "score_opportunities float_of_str get_competition_level generate_opportunity_id now self opps =
     map (score_one float_of_str get_competition_level generate_opportunity_id now self) opps"

text \<open>
  \<open>get_best_opportunities\<close>. The comprehension compares \<open>expected_profit_eth\<close> with the
  threshold first, for every stored record; the comparison raises TypeError on a
  value that is not a number, and the function has no handler.
\<close>

definition valid_opportunity :: "OpportunityDetector \<Rightarrow> DetectedOpportunity \<Rightarrow> error + bool" where
  "valid_opportunity self opp =
     (case py_num (expected_profit_eth opp) of
        None \<Rightarrow> Inl TypeError
      | Some p \<Rightarrow> Inr (p \<ge> min_profit_threshold self
                     \<and> confidence_score opp \<ge> min_confidence_score self
                     \<and> opp_id opp \<notin> blacklisted_opportunities self))"

fun filter_valid ::
    "OpportunityDetector \<Rightarrow> DetectedOpportunity list \<Rightarrow> error + DetectedOpportunity list" where
  "filter_valid self [] = Inr []"
| "filter_valid self (opp # opps) =
     (case valid_opportunity self opp of
        Inl e \<Rightarrow> Inl e
      | Inr keep \<Rightarrow>
        (case filter_valid self opps of
           Inl e \<Rightarrow> Inl e
         | Inr rest \<Rightarrow> Inr (if keep then opp # rest else rest)))"

text \<open>
  The sort key \<open>x.expected_profit_eth * x.confidence_score\<close>. Every record that reaches
  the sort has passed the comparison above, so its profit is a number
  (\<open>filter_valid_numeric\<close> below); the other branch is never evaluated.
\<close>

definition priority_key :: "DetectedOpportunity \<Rightarrow> real" where
  "priority_key x =
     (case py_num (expected_profit_eth x) of
        Some p \<Rightarrow> p * confidence_score x
      | None \<Rightarrow> 0)"

text \<open>\<open>xs[:limit]\<close>: a negative limit drops that many elements from the end.\<close>

definition py_slice_to :: "int \<Rightarrow> 'a list \<Rightarrow> 'a list" where
  "py_slice_to limit xs =
     (if limit \<ge> 0 then take (nat limit) xs
      else take (nat (int (length xs) + limit)) xs)"

text \<open>
  \<open>list.sort(key=..., reverse=True)\<close> is a stable sort, descending: the stable insertion
  sort on the negated key.
\<close>

definition get_best_opportunities ::
    "OpportunityDetector \<Rightarrow> int \<Rightarrow> error + DetectedOpportunity list" where
  "get_best_opportunities self limit =
     (let opportunities = map snd (detected_opportunities self) in
      case filter_valid self opportunities of
        Inl e \<Rightarrow> Inl e
      | Inr valid_opportunities \<Rightarrow>
        Inr (py_slice_to limit (sort_key (\<lambda>x. - priority_key x) valid_opportunities)))"

text \<open>\<open>blacklist_opportunity\<close>.\<close>

definition blacklist_opportunity :: "OpportunityDetector \<Rightarrow> string \<Rightarrow> OpportunityDetector" where
  "blacklist_opportunity self opportunity_id =
     self\<lparr>blacklisted_opportunities := insert opportunity_id (blacklisted_opportunities self),
          detected_opportunities := AList.delete opportunity_id (detected_opportunities self)\<rparr>"

text \<open>
  \<open>_update_detected_opportunities\<close>. The upserts come first; then the staleness test
  subtracts each stored timestamp from \<open>datetime.now()\<close> (the parameter \<open>now\<close>), which
  raises TypeError on a timestamp that is not a datetime. The method has no handler,
  so in that case it stops with the upserts done and the rest not: the result is the
  state reached and the error, if any.
\<close>

definition upsert_all ::
    "DetectedOpportunity list \<Rightarrow> (string \<times> DetectedOpportunity) list
      \<Rightarrow> (string \<times> DetectedOpportunity) list" where
  "upsert_all new_opportunities store =
     foldl (\<lambda>st opp. AList.update (opp_id opp) opp st) store new_opportunities"

fun stale_ids :: "real \<Rightarrow> (string \<times> DetectedOpportunity) list \<Rightarrow> error + string list" where
  "stale_ids now [] = Inr []"
| "stale_ids now ((k, opp) # kvs) =
     (case timestamp opp of
        PTime t \<Rightarrow>
          (case stale_ids now kvs of
             Inl e \<Rightarrow> Inl e
           | Inr ids \<Rightarrow> Inr (if now - t > 300 then k # ids else ids))
      | _ \<Rightarrow> Inl TypeError)"

definition update_detected_opportunities ::
    "OpportunityDetector \<Rightarrow> DetectedOpportunity list \<Rightarrow> real
      \<Rightarrow> OpportunityDetector \<times> error option" where
  "update_detected_opportunities self new_opportunities now =
     (let store1 = upsert_all new_opportunities (detected_opportunities self) in
      case stale_ids now store1 of
        Inl e \<Rightarrow> (self\<lparr>detected_opportunities := store1\<rparr>, Some e)
      | Inr ids \<Rightarrow>
        let store2 = foldl (\<lambda>st k. AList.delete k st) store1 ids;
            history = opportunity_history self @ new_opportunities
        in (self\<lparr>detected_opportunities := store2,
                  total_detected := total_detected self + length new_opportunities,
                  opportunity_history :=
                    (if length history > 1000 then drop (length history - 1000) history
                     else history)\<rparr>, None))"

text \<open>
  The operations that change the store or the blacklist, and a run of them. The class has
  no operation that removes an id from the blacklist.
\<close>

datatype detector_op =
    Update "DetectedOpportunity list" real
  | Blacklist string

fun apply_op :: "OpportunityDetector \<Rightarrow> detector_op \<Rightarrow> OpportunityDetector" where
  "apply_op self (Update new_opportunities now) =
     fst (update_detected_opportunities self new_opportunities now)"
| "apply_op self (Blacklist opportunity_id) = blacklist_opportunity self opportunity_id"

definition apply_ops :: "OpportunityDetector \<Rightarrow> detector_op list \<Rightarrow> OpportunityDetector" where
  "apply_ops self ops = foldl apply_op self ops"

text \<open>Two records and a detector state used as concrete inputs below.\<close>

definition example_opportunity :: "string \<Rightarrow> real \<Rightarrow> real \<Rightarrow> DetectedOpportunity" where
  "example_opportunity i p c =
     \<lparr>opp_id = i, opp_type = PStr ''arbitrage'', chain_id = 1,
      tokens = PList [PStr ''WETH'', PStr ''USDC''],
      expected_profit_eth = PNum p, amount_in = PNum 1, gas_estimate_eth = PNum 0.01,
      confidence_score = c, risk_level = ''low'', execution_priority = 7,
      timestamp = PTime 0, metadata = [], analytics_score = None\<rparr>"

definition example_detector :: OpportunityDetector where
  "example_detector =
     (OpportunityDetector_init 1 0.01)
       \<lparr>detected_opportunities :=
          [(''a'', example_opportunity ''a'' 0.05 0.9),
           (''b'', example_opportunity ''b'' 0.08 0.7)]\<rparr>"

section \<open>FlashbotsRelay (monitoring/flashbots_relay.py)\<close>

text \<open>\<open>needle in haystack\<close> on two strings: substring search.\<close>

fun is_substring :: "string \<Rightarrow> string \<Rightarrow> bool" where
  "is_substring p [] = (p = [])"
| "is_substring p (c # cs) = (take (length p) (c # cs) = p \<or> is_substring p cs)"

text \<open>
  \<open>k in v\<close> for a string \<open>k\<close>: key membership on a dict, substring on a string, element
  membership on a list, TypeError on anything else.
\<close>

definition py_contains :: "pyval \<Rightarrow> string \<Rightarrow> error + bool" where
  "py_contains v k =
     (case v of
        PDict d \<Rightarrow> Inr (k \<in> fst ` set d)
      | PStr s \<Rightarrow> Inr (is_substring k s)
      | PList xs \<Rightarrow> Inr (PStr k \<in> set xs)
      | _ \<Rightarrow> Inl TypeError)"


text \<open>\<open>v.get(k, default)\<close>: only a dict has the method.\<close>

definition py_get :: "pyval \<Rightarrow> string \<Rightarrow> pyval \<Rightarrow> error + pyval" where
  "py_get v k dflt =
     (case v of PDict d \<Rightarrow> Inr (dict_get d k dflt) | _ \<Rightarrow> Inl AttributeError)"


text \<open>A transaction object either has a \<open>rawTransaction\<close> (here its hex string) or not.\<close>

datatype signed_tx = SignedTx string | Unsigned

record pending_bundle =
  pb_transactions :: "signed_tx list"
  pb_target_block :: int
  pb_submission_time :: real
  pb_status :: string

text \<open>
  The relay's state: whether a session is open, the pending-bundle dict and the
  submission statistics that \<open>submit_bundle\<close> writes.
\<close>

record FlashbotsRelay =
  session :: bool
  pending_bundles :: "(pyval \<times> pending_bundle) list"
  total_submissions :: nat
  failed_submissions :: nat
  avg_latency_ms :: real

definition FlashbotsRelay_init :: FlashbotsRelay where
  "FlashbotsRelay_init =
     \<lparr>session = False, pending_bundles = [], total_submissions = 0,
      failed_submissions = 0, avg_latency_ms = 0\<rparr>"

record submit_result =
  success :: bool
  bundle_hash :: pyval
  submit_error :: "error option"
  latency_ms :: real

text \<open>Python compares the keys \<open>True\<close> and \<open>1\<close> (and \<open>False\<close> and \<open>0\<close>) equal.\<close>

definition dict_key :: "pyval \<Rightarrow> pyval" where
  "dict_key v = (case v of PBool b \<Rightarrow> PNum (if b then 1 else 0) | _ \<Rightarrow> v)"

text \<open>
  \<open>submit_bundle\<close>, the \<open>try\<close> block. \<open>response\<close> is what the HTTP POST and the JSON
  decoding give: an exception or the decoded body. \<open>t0\<close> and \<open>t1\<close> are the two readings
  of the clock. The only statement that writes the pending-bundle dict is the last one
  that can raise.
\<close>

definition submit_body ::
    "FlashbotsRelay \<Rightarrow> signed_tx list \<Rightarrow> int \<Rightarrow> error + pyval \<Rightarrow> real \<Rightarrow> real
      \<Rightarrow> error + (submit_result \<times> FlashbotsRelay)" where
  "submit_body self transactions target_block response t0 t1 =
     (if Unsigned \<in> set transactions then Inl AttributeError
      else if \<not> session self then Inl AttributeError
      else case response of
        Inl e \<Rightarrow> Inl e
      | Inr result \<Rightarrow>
        (case py_contains result ''error'' of
           Inl e \<Rightarrow> Inl e
         | Inr True \<Rightarrow> Inl FlashbotsError
         | Inr False \<Rightarrow>
           (case py_get result ''result'' PNone of
              Inl e \<Rightarrow> Inl e
            | Inr hash \<Rightarrow>
              if \<not> truthy hash then Inl FlashbotsError
              else if \<not> hashable hash then Inl TypeError
              else
                let latency = (t1 - t0) * 1000 in
                Inr (\<lparr>success = True, bundle_hash = hash, submit_error = None,
                      latency_ms = latency\<rparr>,
                     self\<lparr>pending_bundles :=
                            AList.update (dict_key hash)
                              \<lparr>pb_transactions = transactions, pb_target_block = target_block,
                               pb_submission_time = t0, pb_status = ''pending''\<rparr>
                              (pending_bundles self),
                          total_submissions := total_submissions self + 1,
                          avg_latency_ms := avg_latency_ms self * 0.9 + latency * 0.1\<rparr>))))"

text \<open>\<open>submit_bundle\<close> with its \<open>except\<close> branch: count the failure, report it.\<close>

definition submit_bundle ::
    "FlashbotsRelay \<Rightarrow> signed_tx list \<Rightarrow> int \<Rightarrow> error + pyval \<Rightarrow> real \<Rightarrow> real
      \<Rightarrow> submit_result \<times> FlashbotsRelay" where
  "submit_bundle self transactions target_block response t0 t1 =
     (case submit_body self transactions target_block response t0 t1 of
        Inl e \<Rightarrow>
          (\<lparr>success = False, bundle_hash = PNone, submit_error = Some e,
            latency_ms = (t1 - t0) * 1000\<rparr>,
           self\<lparr>failed_submissions := failed_submissions self + 1\<rparr>)
      | Inr r \<Rightarrow> r)"














section \<open>ProfitOptimizer (utils/profit_optimizer.py)\<close>

text \<open>
  \<open>web3\<close> is a library outside the repository. Its two unit conversions are parameters:
  \<open>to_wei(x, "gwei")\<close> and \<open>from_wei(n, "ether")\<close>, each of which may raise.
\<close>

record web3 =
  to_wei_gwei :: "real \<Rightarrow> error + int"
  from_wei_ether :: "int \<Rightarrow> error + real"

text \<open>
  The dicts that \<open>_simulate_transaction\<close> and \<open>_analyze_gas_costs\<close> return. Both are
  computed from calls to the node and are inputs here.
\<close>

record simulation_outcome =
  so_success :: bool
  so_gas_estimate :: int
  so_execution_probability :: real

record gas_analysis =
  current_gas_price_gwei :: real
  optimized_gas_price_gwei :: real
  gas_estimate :: int
  current_gas_cost_eth :: real
  optimized_gas_cost_eth :: real
  gas_savings_eth :: real
  gas_market_conditions :: string

text \<open>The dict that \<open>_calculate_profitability\<close> returns.\<close>

record profit_dict =
  pd_gross_profit_eth :: real
  pd_gas_cost_eth :: real
  pd_net_profit_eth :: real
  pd_roi_percentage :: real
  pd_profitable :: bool
  pd_confidence_score :: real
  pd_risk_level :: string
  pd_execution_probability :: real

text \<open>The dict that \<open>_optimize_gas_price\<close> returns.\<close>

record gas_optimization =
  recommended_gas_price_gwei :: int
  gas_optimization_strategy :: string
  potential_savings_eth :: real

text \<open>The dataclass \<open>ProfitAnalysis\<close>.\<close>

record ProfitAnalysis =
  pa_gross_profit_eth :: real
  pa_gas_cost_eth :: real
  pa_net_profit_eth :: real
  pa_roi_percentage :: real
  pa_profitable :: bool
  pa_confidence_score :: real
  pa_risk_level :: string
  pa_recommended_gas_price_gwei :: int
  pa_simulation_success :: bool
  pa_execution_probability :: real

text \<open>
  The optimizer: the two floors (\<open>min_profit_eth\<close> comes from the settings, the minimum
  ROI is 5.0) and the two counters that \<open>analyze_profitability\<close> writes.
\<close>

record ProfitOptimizer =
  min_roi_percentage :: real
  min_profit_eth :: real
  total_analyses :: nat
  profitable_opportunities :: nat

definition ProfitOptimizer_init :: "real \<Rightarrow> ProfitOptimizer" where
  "ProfitOptimizer_init settings_min_profit_eth =
     \<lparr>min_roi_percentage = 5, min_profit_eth = settings_min_profit_eth,
      total_analyses = 0, profitable_opportunities = 0\<rparr>"

definition calculate_profit_confidence ::
    "pydict \<Rightarrow> gas_analysis \<Rightarrow> simulation_outcome \<Rightarrow> real \<Rightarrow> real" where
  "calculate_profit_confidence opportunity gas sim net_profit =
     (let c1 = 0.5 + (if so_success sim then 0.2 else 0);
          c2 = c1 + (if net_profit > 0.01 then 0.15 else if net_profit > 0.005 then 0.1 else 0);
          c3 = c2 + (if gas_market_conditions gas = ''stable'' then 0.1
                     else if gas_market_conditions gas = ''volatile'' then - 0.1 else 0);
          opportunity_type = dict_get opportunity ''type'' (PStr ''unknown'');
          c4 = c3 + (if opportunity_type \<in> {PStr ''arbitrage'', PStr ''flashloan_arbitrage''}
                     then 0.05
                     else if opportunity_type \<in> {PStr ''sandwich'', PStr ''front_run''}
                     then - 0.1 else 0)
      in max 0.1 (min 1 c4))"

definition assess_profit_risk :: "real \<Rightarrow> real \<Rightarrow> simulation_outcome \<Rightarrow> string" where
  "assess_profit_risk net_profit roi_percentage sim =
     (let r1 = (if net_profit < 0.005 then 3 else if net_profit < 0.01 then 2
                else if net_profit < 0.02 then 1 else (0::nat));
          r2 = r1 + (if roi_percentage < 5 then 2 else if roi_percentage < 10 then 1 else 0);
          r3 = r2 + (if \<not> so_success sim then 2 else 0)
      in if r3 \<ge> 5 then ''high'' else if r3 \<ge> 3 then ''medium'' else ''low'')"

text \<open>\<open>_calculate_profitability\<close>: the \<open>try\<close> block, then the function with its fallback.\<close>

definition calculate_profitability_body ::
    "(string \<Rightarrow> real option) \<Rightarrow> ProfitOptimizer \<Rightarrow> pydict \<Rightarrow> gas_analysis
      \<Rightarrow> simulation_outcome \<Rightarrow> error + profit_dict" where
  "calculate_profitability_body float_of_str self opportunity gas sim =
     (case py_float float_of_str (dict_get opportunity ''expected_profit_eth'' (PNum 0)) of
        Inl e \<Rightarrow> Inl e
      | Inr expected_profit \<Rightarrow>
        (case py_float float_of_str (dict_get opportunity ''amount_in'' (PNum 1)) of
           Inl e \<Rightarrow> Inl e
         | Inr amount \<Rightarrow>
           let gas_cost = optimized_gas_cost_eth gas;
               net_profit = expected_profit - gas_cost;
               roi = (if amount > 0 then (net_profit / amount) * 100 else 0)
           in Inr \<lparr>pd_gross_profit_eth = expected_profit, pd_gas_cost_eth = gas_cost,
                    pd_net_profit_eth = net_profit, pd_roi_percentage = roi,
                    pd_profitable = (net_profit \<ge> min_profit_eth self
                                     \<and> roi \<ge> min_roi_percentage self \<and> so_success sim),
                    pd_confidence_score =
                      calculate_profit_confidence opportunity gas sim net_profit,
                    pd_risk_level = assess_profit_risk net_profit roi sim,
                    pd_execution_probability = so_execution_probability sim\<rparr>))"

definition calculate_profitability ::
    "(string \<Rightarrow> real option) \<Rightarrow> ProfitOptimizer \<Rightarrow> pydict \<Rightarrow> gas_analysis
      \<Rightarrow> simulation_outcome \<Rightarrow> profit_dict" where
  "calculate_profitability float_of_str self opportunity gas sim =
     (case calculate_profitability_body float_of_str self opportunity gas sim of
        Inl e \<Rightarrow> \<lparr>pd_gross_profit_eth = 0, pd_gas_cost_eth = 0, pd_net_profit_eth = 0,
                   pd_roi_percentage = 0, pd_profitable = False, pd_confidence_score = 0,
                   pd_risk_level = ''high'', pd_execution_probability = 0\<rparr>
      | Inr d \<Rightarrow> d)"

text \<open>
  \<open>_optimize_gas_price\<close>. The loop over the four candidate gas prices keeps the best net
  profit seen and the strategy that gave it; a conversion that raises ends the \<open>try\<close>
  block.
\<close>

fun try_strategies ::
    "web3 \<Rightarrow> int \<Rightarrow> real \<Rightarrow> (string \<times> real) list \<Rightarrow> real \<times> (string \<times> real) option
      \<Rightarrow> error + (real \<times> (string \<times> real) option)" where
  "try_strategies w3 est gross [] best = Inr best"
| "try_strategies w3 est gross ((strategy_name, gas_price) # rest) (best_profit, best_strategy) =
     (case to_wei_gwei w3 gas_price of
        Inl e \<Rightarrow> Inl e
      | Inr price_wei \<Rightarrow>
        (case from_wei_ether w3 (est * price_wei) of
           Inl e \<Rightarrow> Inl e
         | Inr gas_cost_eth \<Rightarrow>
           let net_profit = gross - gas_cost_eth in
           try_strategies w3 est gross rest
             (if net_profit > best_profit then (net_profit, Some (strategy_name, gas_price))
              else (best_profit, best_strategy))))"

definition optimize_gas_price_body ::
    "web3 \<Rightarrow> profit_dict \<Rightarrow> gas_analysis \<Rightarrow> error + gas_optimization" where
  "optimize_gas_price_body w3 profit gas =
     (let current_gas_price = current_gas_price_gwei gas;
          optimized_gas_price = optimized_gas_price_gwei gas;
          finish = (\<lambda>price. Inr \<lparr>recommended_gas_price_gwei = py_int price,
                                gas_optimization_strategy = ''dynamic'',
                                potential_savings_eth = gas_savings_eth gas\<rparr>)
      in if \<not> pd_profitable profit then
           (case try_strategies w3 (gas_estimate gas) (pd_gross_profit_eth profit)
                   [(''aggressive'', current_gas_price * 0.8),
                    (''conservative'', current_gas_price * 0.9),
                    (''market'', current_gas_price),
                    (''premium'', current_gas_price * 1.1)]
                   (pd_net_profit_eth profit, None) of
              Inl e \<Rightarrow> Inl e
            | Inr (best_profit, None) \<Rightarrow> finish optimized_gas_price
            | Inr (best_profit, Some (strategy_name, gas_price)) \<Rightarrow> finish gas_price)
         else finish optimized_gas_price)"

definition optimize_gas_price :: "web3 \<Rightarrow> profit_dict \<Rightarrow> gas_analysis \<Rightarrow> gas_optimization" where
  "optimize_gas_price w3 profit gas =
     (case optimize_gas_price_body w3 profit gas of
        Inl e \<Rightarrow> \<lparr>recommended_gas_price_gwei = py_int (current_gas_price_gwei gas),
                   gas_optimization_strategy = ''fallback'', potential_savings_eth = 0\<rparr>
      | Inr r \<Rightarrow> r)"

text \<open>
  \<open>_finalize_profit_analysis\<close>. The gas cost is recomputed from the dict's gas cost \<open>g\<close>
  and the recommended price as \<open>g * 10**18 * price / (g * 10**18 / g)\<close>, which divides
  by zero when \<open>g\<close> is 0. The ROI is the net profit over 1.0, times 100.
\<close>

definition finalize_body ::
    "web3 \<Rightarrow> ProfitOptimizer \<Rightarrow> profit_dict \<Rightarrow> gas_optimization \<Rightarrow> simulation_outcome
      \<Rightarrow> error + ProfitAnalysis" where
  "finalize_body w3 self profit opt sim =
     (let g = pd_gas_cost_eth profit in
      if g = 0 then Inl ZeroDivisionError
      else
        let optimized_gas_cost_wei =
              g * 10 ^ 18 * real_of_int (recommended_gas_price_gwei opt) / (g * 10 ^ 18 / g)
        in case from_wei_ether w3 (py_int optimized_gas_cost_wei) of
          Inl e \<Rightarrow> Inl e
        | Inr optimized_gas_cost \<Rightarrow>
          let final_net_profit = pd_gross_profit_eth profit - optimized_gas_cost;
              final_roi = (final_net_profit / 1) * 100
          in Inr \<lparr>pa_gross_profit_eth = pd_gross_profit_eth profit,
                   pa_gas_cost_eth = optimized_gas_cost,
                   pa_net_profit_eth = final_net_profit,
                   pa_roi_percentage = final_roi,
                   pa_profitable = (final_net_profit \<ge> min_profit_eth self
                                    \<and> final_roi \<ge> min_roi_percentage self \<and> so_success sim),
                   pa_confidence_score = pd_confidence_score profit,
                   pa_risk_level = pd_risk_level profit,
                   pa_recommended_gas_price_gwei = recommended_gas_price_gwei opt,
                   pa_simulation_success = so_success sim,
                   pa_execution_probability = pd_execution_probability profit\<rparr>)"

definition fallback_analysis :: ProfitAnalysis where
  "fallback_analysis =
     \<lparr>pa_gross_profit_eth = 0, pa_gas_cost_eth = 0, pa_net_profit_eth = 0,
      pa_roi_percentage = 0, pa_profitable = False, pa_confidence_score = 0,
      pa_risk_level = ''high'', pa_recommended_gas_price_gwei = 0,
      pa_simulation_success = False, pa_execution_probability = 0\<rparr>"

definition finalize_profit_analysis ::
    "web3 \<Rightarrow> ProfitOptimizer \<Rightarrow> profit_dict \<Rightarrow> gas_optimization \<Rightarrow> simulation_outcome
      \<Rightarrow> ProfitAnalysis" where
  "finalize_profit_analysis w3 self profit opt sim =
     (case finalize_body w3 self profit opt sim of
        Inl e \<Rightarrow> fallback_analysis
      | Inr a \<Rightarrow> a)"

text \<open>
  \<open>analyze_profitability\<close>, from the results of the simulation and of the gas analysis
  on: steps 3 to 5 and the two counters. Each step catches its own exceptions, so the
  outer \<open>except\<close> branch is not reached.
\<close>

definition analyze_profitability ::
    "(string \<Rightarrow> real option) \<Rightarrow> web3 \<Rightarrow> ProfitOptimizer \<Rightarrow> pydict \<Rightarrow> simulation_outcome
      \<Rightarrow> gas_analysis \<Rightarrow> ProfitAnalysis \<times> ProfitOptimizer" where
  "analyze_profitability float_of_str w3 self opportunity sim gas =
     (let profit = calculate_profitability float_of_str self opportunity gas sim;
          optimized_gas = optimize_gas_price w3 profit gas;
          final_analysis = finalize_profit_analysis w3 self profit optimized_gas sim
      in (final_analysis,
          self\<lparr>total_analyses := total_analyses self + 1,
               profitable_opportunities :=
                 profitable_opportunities self + (if pa_profitable final_analysis then 1 else 0)\<rparr>))"

text \<open>
  The conversions as web3 computes them on amounts that are not negative (a negative
  amount is rejected), and the inputs of a concrete analysis: an opportunity of 1 ETH
  expected profit on 10 ETH put in, a successful simulation, gas at 50 gwei.
\<close>

definition example_web3 :: web3 where
  "example_web3 =
     \<lparr>to_wei_gwei = (\<lambda>x. if x < 0 then Inl ValueError else Inr \<lfloor>x * 10 ^ 9\<rfloor>),
      from_wei_ether = (\<lambda>n. if n < 0 then Inl ValueError else Inr (real_of_int n / 10 ^ 18))\<rparr>"

definition example_profit_opportunity :: pydict where
  "example_profit_opportunity =
     [(''type'', PStr ''arbitrage''), (''expected_profit_eth'', PNum 1), (''amount_in'', PNum 10)]"

definition example_simulation :: simulation_outcome where
  "example_simulation =
     \<lparr>so_success = True, so_gas_estimate = 200000, so_execution_probability = 0.9\<rparr>"

definition example_gas :: gas_analysis where
  "example_gas =
     \<lparr>current_gas_price_gwei = 50, optimized_gas_price_gwei = 50, gas_estimate = 200000,
      current_gas_cost_eth = 0.01, optimized_gas_cost_eth = 0.01, gas_savings_eth = 0,
      gas_market_conditions = ''unknown''\<rparr>"

definition example_optimizer :: ProfitOptimizer where
  "example_optimizer = ProfitOptimizer_init 0.01"

section \<open>Theorems\<close>

text \<open>
  C3. With the default thresholds, \<open>select_strategy\<close> returns "skip" when the gas price is
  at least 100 or the volatility at least 10, otherwise "multi_hop" when the mempool rate
  is at least 1000 and the gas price is strictly below 60 (so gas exactly 60 gives
  "simple"), otherwise "simple".
\<close>

theorem select_strategy_rules:
  "select_strategy StrategySelector_init m g v =
     (if g \<ge> 100 \<or> v \<ge> 10 then ''skip''
      else if m \<ge> 1000 \<and> g < 60 then ''multi_hop''
      else ''simple'')
   \<and> select_strategy StrategySelector_init 1200 60 5 = ''simple''"
  by (simp add: select_strategy_def StrategySelector_init_def)

theorem select_strategy_rules_witness:
  "select_strategy StrategySelector_init 1000 59 9 = ''multi_hop''
   \<and> select_strategy StrategySelector_init 1000 100 0 = ''skip''
   \<and> select_strategy StrategySelector_init 999 59 9 = ''simple''"
  using select_strategy_rules [of 1000 59 9] select_strategy_rules [of 1000 100 0]
    select_strategy_rules [of 999 59 9]
  by simp

subsection \<open>Strategy confidence\<close>

lemma map_of_zero_defaults:
  "map_of zero_defaults ''gas_price_gwei'' = Some (PNum 0)"
  "map_of zero_defaults ''token_price_volatility'' = Some (PNum 0)"
  "map_of zero_defaults ''mempool_tx_rate'' = Some (PNum 0)"
  by (simp_all add: zero_defaults_def)

lemma spec_adjust_default:
  assumes "map_of zero_defaults k = Some (PNum 0)"
    and "py_num (dict_get mc k (PNum 0)) = Some r"
  shows "spec_adjust (mc @ zero_defaults) k f = f r"
proof (cases "map_of mc k")
  case None
  then show ?thesis using assms
    by (simp add: spec_adjust_def dict_get_def map_add_def)
next
  case (Some v)
  then show ?thesis using assms
    by (simp add: spec_adjust_def dict_get_def map_add_def)
qed

lemma confidence_body_range: "confidence_body s mc = Inr c \<Longrightarrow> 0 \<le> c \<and> c \<le> 1"
  unfolding confidence_body_def
  by (auto split: if_splits option.splits)

text \<open>
  C8, as stated, fails: a missing field is not neutral. With only the gas price given
  (50 gwei, which itself adjusts nothing) the code returns 0.7, since the missing
  volatility is read as 0 and 0 is below the low-volatility band; the specification's
  reading gives 0.5.
\<close>

theorem get_strategy_confidence_counterexample:
  "get_strategy_confidence ''simple'' [(''gas_price_gwei'', PNum 50)] = 0.7
   \<and> spec_confidence ''simple'' [(''gas_price_gwei'', PNum 50)] = 0.5"
  by (simp add: get_strategy_confidence_def confidence_body_def spec_confidence_def
      spec_adjust_def dict_get_def gas_adjustment_def volatility_adjustment_def
      mempool_adjustment_def)

text \<open>
  C8, amended. \<open>get_strategy_confidence\<close> returns 0 for "skip" whatever the market
  conditions; its result always lies in the unit interval; for any other strategy an empty
  dict of market conditions gives 0.5; and for a non-empty dict with numeric fields the
  result is 0.5 plus the gas, volatility and mempool adjustments, clamped to the unit
  interval, where a missing field is read as the value 0 (so a missing gas price or
  volatility adds 0.2 each and a missing mempool rate adds nothing).
\<close>

theorem get_strategy_confidence_amended:
  "get_strategy_confidence ''skip'' mc = 0
   \<and> 0 \<le> get_strategy_confidence s mc \<and> get_strategy_confidence s mc \<le> 1
   \<and> (s \<noteq> ''skip'' \<longrightarrow> get_strategy_confidence s [] = 0.5)
   \<and> (s \<noteq> ''skip'' \<and> mc \<noteq> []
        \<and> py_num (dict_get mc ''gas_price_gwei'' (PNum 0)) \<noteq> None
        \<and> py_num (dict_get mc ''token_price_volatility'' (PNum 0)) \<noteq> None
        \<and> py_num (dict_get mc ''mempool_tx_rate'' (PNum 0)) \<noteq> None
      \<longrightarrow> get_strategy_confidence s mc = spec_confidence s (mc @ zero_defaults))"
proof -
  have skip: "get_strategy_confidence ''skip'' mc = 0"
    by (simp add: get_strategy_confidence_def confidence_body_def)
  have rng: "0 \<le> get_strategy_confidence s mc \<and> get_strategy_confidence s mc \<le> 1"
    using confidence_body_range [of s mc]
    by (cases "confidence_body s mc") (simp_all add: get_strategy_confidence_def)
  have empty: "s \<noteq> ''skip'' \<Longrightarrow> get_strategy_confidence s [] = 0.5"
    by (simp add: get_strategy_confidence_def confidence_body_def)
  have full: "get_strategy_confidence s mc = spec_confidence s (mc @ zero_defaults)"
    if "s \<noteq> ''skip''" "mc \<noteq> []"
      and g: "py_num (dict_get mc ''gas_price_gwei'' (PNum 0)) \<noteq> None"
      and v: "py_num (dict_get mc ''token_price_volatility'' (PNum 0)) \<noteq> None"
      and m: "py_num (dict_get mc ''mempool_tx_rate'' (PNum 0)) \<noteq> None"
  proof -
    from g obtain gv where gv: "py_num (dict_get mc ''gas_price_gwei'' (PNum 0)) = Some gv"
      by auto
    from v obtain vv where vv: "py_num (dict_get mc ''token_price_volatility'' (PNum 0)) = Some vv"
      by auto
    from m obtain mv where mv: "py_num (dict_get mc ''mempool_tx_rate'' (PNum 0)) = Some mv"
      by auto
    show ?thesis
      using that(1,2)
      by (simp add: get_strategy_confidence_def confidence_body_def spec_confidence_def
          gv vv mv spec_adjust_default [OF map_of_zero_defaults(1) gv]
          spec_adjust_default [OF map_of_zero_defaults(2) vv]
          spec_adjust_default [OF map_of_zero_defaults(3) mv])
  qed
  show ?thesis using skip rng empty full by blast
qed

theorem get_strategy_confidence_amended_witness:
  "get_strategy_confidence ''simple'' [(''mempool_tx_rate'', PNum 100)] = 0.9
   \<and> get_strategy_confidence ''simple'' [] = 0.5"
  using get_strategy_confidence_amended [of "[(''mempool_tx_rate'', PNum 100)]" "''simple''"]
  by (simp add: spec_confidence_def spec_adjust_def zero_defaults_def dict_get_def
      gas_adjustment_def volatility_adjustment_def mempool_adjustment_def)

subsection \<open>Scoring weights\<close>

text \<open>
  C2, as stated, fails: the adjusted weight vectors are not renormalised. For "sandwich"
  the six weights sum to 1.2.
\<close>

theorem opportunity_weights_counterexample:
  "weights_sum (get_opportunity_weights (PStr ''sandwich'')) = 1.2
   \<and> weights_sum (get_opportunity_weights (PStr ''sandwich'')) \<noteq> 1"
  by (simp add: weights_sum_def get_opportunity_weights_def base_weights_def)

text \<open>
  C2, amended. The default weights are profit 0.30, risk 0.20, execution 0.20, market
  0.15, gas 0.10, competition 0.05 and sum to 1; every strategy type other than
  flashloan_arbitrage, sandwich and arbitrage uses them. flashloan_arbitrage sets profit to
  0.40 and risk to 0.15, sandwich sets risk to 0.30 and competition to 0.15, arbitrage sets
  execution to 0.25; in each of these cases all other weights keep their default values,
  so the sums are 1.05, 1.2 and 1.05.
\<close>

theorem opportunity_weights_amended:
  "base_weights = \<lparr>w_profit = 0.3, w_risk = 0.2, w_execution = 0.2,
                    w_market = 0.15, w_gas = 0.1, w_competition = 0.05\<rparr>
   \<and> weights_sum base_weights = 1
   \<and> (t \<notin> {''flashloan_arbitrage'', ''sandwich'', ''arbitrage''}
        \<longrightarrow> get_opportunity_weights (PStr t) = base_weights)
   \<and> get_opportunity_weights (PStr ''flashloan_arbitrage'')
        = base_weights\<lparr>w_profit := 0.4, w_risk := 0.15\<rparr>
   \<and> weights_sum (get_opportunity_weights (PStr ''flashloan_arbitrage'')) = 1.05
   \<and> get_opportunity_weights (PStr ''sandwich'')
        = base_weights\<lparr>w_risk := 0.3, w_competition := 0.15\<rparr>
   \<and> weights_sum (get_opportunity_weights (PStr ''sandwich'')) = 1.2
   \<and> get_opportunity_weights (PStr ''arbitrage'') = base_weights\<lparr>w_execution := 0.25\<rparr>
   \<and> weights_sum (get_opportunity_weights (PStr ''arbitrage'')) = 1.05"
  by (simp add: weights_sum_def get_opportunity_weights_def base_weights_def)

theorem opportunity_weights_amended_witness:
  "get_opportunity_weights (PStr ''liquidation'') = base_weights
   \<and> weights_sum (get_opportunity_weights (PStr ''liquidation'')) = 1"
  using opportunity_weights_amended [of "''liquidation''"]
  by simp

subsection \<open>Scoring fails closed\<close>

text \<open>
  In the source as it stands \<open>_get_competition_level\<close> does not exist, so the risk
  sub-score never gets computed: every call of \<open>score_opportunity\<close> ends in the
  \<open>except\<close> branch.
\<close>

lemma score_body_missing_method:
  "\<exists>e. score_body float_of_str missing_competition_level self opportunity = Inl e"
  by (auto simp: score_body_def calculate_risk_score_def missing_competition_level_def Let_def
      split: sum.splits option.splits)

lemma score_opportunity_missing_method:
  "score_opportunity float_of_str missing_competition_level self opportunity = fallback_score"
  using score_body_missing_method [of float_of_str self opportunity]
  by (auto simp: score_opportunity_def)

text \<open>
  C5. Whenever the computation of the score raises, \<open>score_opportunity\<close> returns a score
  with total 0, risk 1 and confidence interval (0, 0); the error is not propagated. This
  holds whatever \<open>_get_competition_level\<close> would do.
\<close>

theorem score_opportunity_fails_closed:
  assumes "score_body float_of_str get_competition_level self opportunity = Inl e"
  shows "total_score (score_opportunity float_of_str get_competition_level self opportunity) = 0
    \<and> risk_score (score_opportunity float_of_str get_competition_level self opportunity) = 1
    \<and> confidence_interval (score_opportunity float_of_str get_competition_level self opportunity)
        = (0, 0)"
  using assms by (simp add: score_opportunity_def fallback_score_def)

theorem score_opportunity_fails_closed_witness:
  "score_body (\<lambda>s. None) (\<lambda>d. Inr 0.5) AdvancedAnalytics_init
      [(''expected_profit_eth'', PNum 0.05), (''amount_in'', PStr ''abc'')] = Inl ValueError
   \<and> total_score (score_opportunity (\<lambda>s. None) (\<lambda>d. Inr 0.5) AdvancedAnalytics_init
      [(''expected_profit_eth'', PNum 0.05), (''amount_in'', PStr ''abc'')]) = 0
   \<and> risk_score (score_opportunity (\<lambda>s. None) (\<lambda>d. Inr 0.5) AdvancedAnalytics_init
      [(''expected_profit_eth'', PNum 0.05), (''amount_in'', PStr ''abc'')]) = 1"
proof -
  have h: "score_body (\<lambda>s. None) (\<lambda>d. Inr 0.5) AdvancedAnalytics_init
      [(''expected_profit_eth'', PNum 0.05), (''amount_in'', PStr ''abc'')] = Inl ValueError"
    by (simp add: score_body_def dict_get_def py_float_def)
  show ?thesis using h score_opportunity_fails_closed [OF h] by simp
qed

subsection \<open>Risk level\<close>

lemma get_risk_level_cases:
  "get_risk_level r \<in> {''low'', ''medium'', ''high'', ''extreme''}"
  by (simp add: get_risk_level_def)

text \<open>
  C10. The scoring pass turns each opportunity dict into one record, in order, and the
  record's risk level is \<open>_get_risk_level\<close> of the risk sub-score that
  \<open>score_opportunity\<close> computes for that dict (the score the record also carries):
  "low" below 0.25, "medium" from 0.25 and below 0.5, "high" from 0.5 and below 0.75,
  "extreme" otherwise; so it is always one of these four strings.
\<close>

theorem risk_level_total:
  "map risk_level (score_opportunities float_of_str gcl gen_id now self opps)
     = map (\<lambda>opp_data. get_risk_level
              (risk_score (score_opportunity float_of_str gcl (analytics self) opp_data))) opps
   \<and> map analytics_score (score_opportunities float_of_str gcl gen_id now self opps)
     = map (\<lambda>opp_data. Some (score_opportunity float_of_str gcl (analytics self) opp_data)) opps
   \<and> (\<forall>opp \<in> set (score_opportunities float_of_str gcl gen_id now self opps).
        \<exists>score. analytics_score opp = Some score
          \<and> risk_level opp = get_risk_level (risk_score score)
          \<and> risk_level opp \<in> {''low'', ''medium'', ''high'', ''extreme''})
   \<and> get_risk_level r =
       (if r < 0.25 then ''low'' else if r < 0.5 then ''medium''
        else if r < 0.75 then ''high'' else ''extreme'')"
proof -
  have a: "map risk_level (score_opportunities float_of_str gcl gen_id now self opps)
     = map (\<lambda>opp_data. get_risk_level
              (risk_score (score_opportunity float_of_str gcl (analytics self) opp_data))) opps"
    by (simp add: score_opportunities_def score_one_def Let_def)
  have b: "map analytics_score (score_opportunities float_of_str gcl gen_id now self opps)
     = map (\<lambda>opp_data. Some (score_opportunity float_of_str gcl (analytics self) opp_data)) opps"
    by (simp add: score_opportunities_def score_one_def Let_def)
  have c: "\<forall>opp \<in> set (score_opportunities float_of_str gcl gen_id now self opps).
        \<exists>score. analytics_score opp = Some score
          \<and> risk_level opp = get_risk_level (risk_score score)
          \<and> risk_level opp \<in> {''low'', ''medium'', ''high'', ''extreme''}"
    using get_risk_level_cases
    by (auto simp: score_opportunities_def score_one_def Let_def)
  have d: "get_risk_level r =
       (if r < 0.25 then ''low'' else if r < 0.5 then ''medium''
        else if r < 0.75 then ''high'' else ''extreme'')"
    by (simp add: get_risk_level_def)
  show ?thesis using a b c d by (intro conjI)
qed

theorem risk_level_total_witness:
  "map risk_level (score_opportunities (\<lambda>s. None) missing_competition_level (\<lambda>d. ''id0'') 0
      (OpportunityDetector_init 1 0.01)
      [[(''type'', PStr ''arbitrage''), (''expected_profit_eth'', PNum 0.02)]]) = [''extreme'']
   \<and> get_risk_level 0.25 = ''medium''"
  using risk_level_total [of "\<lambda>s. None" missing_competition_level "\<lambda>d. ''id0''" 0
      "OpportunityDetector_init 1 0.01"
      "[[(''type'', PStr ''arbitrage''), (''expected_profit_eth'', PNum 0.02)]]" "0.25"]
  by (simp add: score_opportunities_def score_one_def score_opportunity_missing_method
      fallback_score_def get_risk_level_def Let_def)

subsection \<open>Best opportunities\<close>

lemma filter_valid_Inr:
  "filter_valid self xs = Inr ys \<Longrightarrow>
     set ys \<subseteq> set xs \<and> (\<forall>opp \<in> set ys. valid_opportunity self opp = Inr True)"
proof (induction xs arbitrary: ys)
  case Nil
  then show ?case by simp
next
  case (Cons x xs)
  then show ?case
    by (auto split: sum.splits if_splits)
qed

lemma filter_valid_numeric:
  "filter_valid self xs = Inr ys \<Longrightarrow> \<forall>opp \<in> set ys. py_num (expected_profit_eth opp) \<noteq> None"
  by (auto dest!: filter_valid_Inr simp: valid_opportunity_def split: option.splits)

lemma filter_valid_total:
  "\<forall>opp \<in> set xs. py_num (expected_profit_eth opp) \<noteq> None \<Longrightarrow> \<exists>ys. filter_valid self xs = Inr ys"
proof (induction xs)
  case Nil
  then show ?case by simp
next
  case (Cons x xs)
  then obtain ys where "filter_valid self xs = Inr ys" by auto
  moreover obtain b where "valid_opportunity self x = Inr b"
    using Cons.prems by (auto simp: valid_opportunity_def)
  ultimately show ?case by simp
qed

lemma sorted_descending:
  "sorted_wrt (\<lambda>a b. priority_key a \<ge> priority_key b)
     (py_slice_to limit (sort_key (\<lambda>x. - priority_key x) xs))"
proof -
  have "sorted (map (\<lambda>x. - priority_key x) (sort_key (\<lambda>x. - priority_key x) xs))"
    by (rule sorted_sort_key)
  then have "sorted_wrt (\<lambda>a b. priority_key a \<ge> priority_key b)
      (sort_key (\<lambda>x. - priority_key x) xs)"
    by (simp add: sorted_wrt_map)
  then show ?thesis
    by (simp add: py_slice_to_def sorted_wrt_take)
qed

lemma set_py_slice_to: "set (py_slice_to limit xs) \<subseteq> set xs"
  by (auto simp: py_slice_to_def dest: in_set_takeD)

lemma length_py_slice_to: "0 \<le> limit \<Longrightarrow> int (length (py_slice_to limit xs)) \<le> limit"
  by (simp add: py_slice_to_def)

lemma get_best_opportunities_props:
  "(\<forall>res. get_best_opportunities self limit = Inr res \<longrightarrow>
      (0 \<le> limit \<longrightarrow> int (length res) \<le> limit)
    \<and> (\<forall>opp \<in> set res.
          opp \<in> snd ` set (detected_opportunities self)
        \<and> opp_id opp \<notin> blacklisted_opportunities self
        \<and> (\<exists>p. py_num (expected_profit_eth opp) = Some p \<and> p \<ge> min_profit_threshold self)
        \<and> confidence_score opp \<ge> min_confidence_score self)
    \<and> sorted_wrt (\<lambda>a b. priority_key a \<ge> priority_key b) res)
   \<and> ((\<forall>opp \<in> snd ` set (detected_opportunities self).
          py_num (expected_profit_eth opp) \<noteq> None)
        \<longrightarrow> (\<exists>res. get_best_opportunities self limit = Inr res))"
proof (intro conjI allI impI)
  fix res
  assume r: "get_best_opportunities self limit = Inr res"
  then obtain valid where v: "filter_valid self (map snd (detected_opportunities self)) = Inr valid"
    and res: "res = py_slice_to limit (sort_key (\<lambda>x. - priority_key x) valid)"
    by (auto simp: get_best_opportunities_def Let_def split: sum.splits)
  show "int (length res) \<le> limit" if "0 \<le> limit"
    using that res length_py_slice_to by blast
  show "sorted_wrt (\<lambda>a b. priority_key a \<ge> priority_key b) res"
    unfolding res by (rule sorted_descending)
  have sub: "set res \<subseteq> set valid"
    using set_py_slice_to [of limit "sort_key (\<lambda>x. - priority_key x) valid"] res by simp
  show "\<forall>opp \<in> set res.
          opp \<in> snd ` set (detected_opportunities self)
        \<and> opp_id opp \<notin> blacklisted_opportunities self
        \<and> (\<exists>p. py_num (expected_profit_eth opp) = Some p \<and> p \<ge> min_profit_threshold self)
        \<and> confidence_score opp \<ge> min_confidence_score self"
  proof
    fix opp assume "opp \<in> set res"
    then have m: "opp \<in> set valid" using sub by blast
    from filter_valid_Inr [OF v] m
    have "opp \<in> set (map snd (detected_opportunities self))"
      and "valid_opportunity self opp = Inr True" by auto
    then show "opp \<in> snd ` set (detected_opportunities self)
        \<and> opp_id opp \<notin> blacklisted_opportunities self
        \<and> (\<exists>p. py_num (expected_profit_eth opp) = Some p \<and> p \<ge> min_profit_threshold self)
        \<and> confidence_score opp \<ge> min_confidence_score self"
      by (auto simp: valid_opportunity_def split: option.splits)
  qed
next
  assume "\<forall>opp \<in> snd ` set (detected_opportunities self).
          py_num (expected_profit_eth opp) \<noteq> None"
  then have "\<forall>opp \<in> set (map snd (detected_opportunities self)).
          py_num (expected_profit_eth opp) \<noteq> None" by simp
  then obtain ys where "filter_valid self (map snd (detected_opportunities self)) = Inr ys"
    using filter_valid_total by blast
  then show "\<exists>res. get_best_opportunities self limit = Inr res"
    by (simp add: get_best_opportunities_def)
qed



subsection \<open>Blacklist\<close>

lemma blacklisted_update:
  "blacklisted_opportunities (fst (update_detected_opportunities self new now))
     = blacklisted_opportunities self"
  by (simp add: update_detected_opportunities_def Let_def split: sum.splits)

lemma blacklisted_apply_op:
  "i \<in> blacklisted_opportunities self \<Longrightarrow> i \<in> blacklisted_opportunities (apply_op self x)"
  by (cases x) (simp_all add: blacklisted_update blacklist_opportunity_def)

lemma blacklisted_apply_ops:
  "i \<in> blacklisted_opportunities self \<Longrightarrow> i \<in> blacklisted_opportunities (apply_ops self ops)"
  unfolding apply_ops_def
  by (induction ops arbitrary: self) (simp_all add: blacklisted_apply_op)

lemma get_best_not_blacklisted:
  "get_best_opportunities self limit = Inr res \<Longrightarrow> i \<in> blacklisted_opportunities self
     \<Longrightarrow> i \<notin> opp_id ` set res"
  using get_best_opportunities_props [of self limit] by auto

text \<open>
  C7, as stated, fails: \<open>_update_detected_opportunities\<close> does not consult the
  blacklist. After "a" is blacklisted (and removed), an update that carries an
  opportunity with id "a" stores it again.
\<close>

theorem blacklist_counterexample:
  "''a'' \<notin> fst ` set (detected_opportunities (blacklist_opportunity example_detector ''a''))
   \<and> ''a'' \<in> fst ` set (detected_opportunities
        (apply_ops (blacklist_opportunity example_detector ''a'')
           [Update [example_opportunity ''a'' 0.05 0.9] 10]))"
  by (simp add: apply_ops_def blacklist_opportunity_def example_detector_def
      OpportunityDetector_init_def update_detected_opportunities_def upsert_all_def
      example_opportunity_def)

text \<open>
  C7, amended. \<open>blacklist_opportunity(id)\<close> removes the id from the store and adds it
  to the blacklist. After any later sequence of updates and blacklistings the id is still
  blacklisted (nothing removes an id from the blacklist), and whatever
  \<open>get_best_opportunities\<close> returns holds no opportunity with that id; a later update
  may store an opportunity with that id again.
\<close>

theorem blacklist_amended:
  "i \<notin> fst ` set (detected_opportunities (blacklist_opportunity self i))
   \<and> i \<in> blacklisted_opportunities (apply_ops (blacklist_opportunity self i) ops)
   \<and> (\<forall>limit res.
        get_best_opportunities (apply_ops (blacklist_opportunity self i) ops) limit = Inr res
        \<longrightarrow> i \<notin> opp_id ` set res)"
proof -
  have a: "i \<notin> fst ` set (detected_opportunities (blacklist_opportunity self i))"
    by (simp add: blacklist_opportunity_def AList.delete_notin_dom)
  have "i \<in> blacklisted_opportunities (blacklist_opportunity self i)"
    by (simp add: blacklist_opportunity_def)
  then have b: "i \<in> blacklisted_opportunities (apply_ops (blacklist_opportunity self i) ops)"
    by (rule blacklisted_apply_ops)
  show ?thesis using a b get_best_not_blacklisted by blast
qed

theorem blacklist_amended_witness:
  "get_best_opportunities
     (apply_ops (blacklist_opportunity example_detector ''a'')
        [Update [example_opportunity ''a'' 0.05 0.9] 10]) 10
     = Inr [example_opportunity ''b'' 0.08 0.7]
   \<and> ''a'' \<notin> opp_id ` set [example_opportunity ''b'' 0.08 0.7]"
proof -
  have h: "get_best_opportunities
     (apply_ops (blacklist_opportunity example_detector ''a'')
        [Update [example_opportunity ''a'' 0.05 0.9] 10]) 10
     = Inr [example_opportunity ''b'' 0.08 0.7]"
    by (simp add: apply_ops_def blacklist_opportunity_def example_detector_def
      OpportunityDetector_init_def update_detected_opportunities_def upsert_all_def
      example_opportunity_def get_best_opportunities_def valid_opportunity_def
      priority_key_def py_slice_to_def)
  show ?thesis
    using h blacklist_amended [of "''a''" example_detector
        "[Update [example_opportunity ''a'' 0.05 0.9] 10]"]
    by blast
qed

subsection \<open>Bundle submission\<close>

lemma submit_body_Inr:
  assumes "submit_body self txs blk response t0 t1 = Inr (r, self')"
  shows "success r \<and> session self
    \<and> (\<exists>d h. response = Inr (PDict d) \<and> ''error'' \<notin> fst ` set d
          \<and> map_of d ''result'' = Some h \<and> truthy h \<and> hashable h \<and> bundle_hash r = h
          \<and> pending_bundles self' =
               AList.update (dict_key h)
                 \<lparr>pb_transactions = txs, pb_target_block = blk,
                  pb_submission_time = t0, pb_status = ''pending''\<rparr> (pending_bundles self))"
proof -
  from assms obtain result where resp: "response = Inr result"
    by (cases response) (auto simp: submit_body_def split: if_splits)
  from assms resp obtain d where d: "result = PDict d"
    by (cases result) (auto simp: submit_body_def py_contains_def py_get_def
        split: if_splits sum.splits bool.splits)
  show ?thesis
    using assms unfolding resp d
    by (auto simp: submit_body_def py_contains_def py_get_def dict_get_def Let_def
        split: if_splits sum.splits bool.splits option.splits)
qed

text \<open>
  C9. A call of \<open>submit_bundle\<close> that reports failure leaves the pending-bundle dict
  exactly as it was; and the dict changes only when the relay's answer is a JSON object
  with a truthy "result", the bundle hash that the successful call returns.
\<close>

theorem submit_bundle_atomic:
  "(\<not> success (fst (submit_bundle self txs blk response t0 t1))
      \<longrightarrow> pending_bundles (snd (submit_bundle self txs blk response t0 t1))
            = pending_bundles self)
   \<and> (pending_bundles (snd (submit_bundle self txs blk response t0 t1)) \<noteq> pending_bundles self
      \<longrightarrow> (\<exists>d h. response = Inr (PDict d) \<and> map_of d ''result'' = Some h \<and> truthy h
            \<and> success (fst (submit_bundle self txs blk response t0 t1))
            \<and> bundle_hash (fst (submit_bundle self txs blk response t0 t1)) = h))"
proof (cases "submit_body self txs blk response t0 t1")
  case (Inl e)
  then show ?thesis by (simp add: submit_bundle_def)
next
  case (Inr p)
  obtain r self' where p: "p = (r, self')" by (cases p)
  from submit_body_Inr [OF Inr [unfolded p]] show ?thesis
    using Inr p by (auto simp: submit_bundle_def)
qed

theorem submit_bundle_atomic_witness:
  "\<not> success (fst (submit_bundle (FlashbotsRelay_init\<lparr>session := True\<rparr>) [SignedTx ''0x02f8'']
        100 (Inr (PDict [(''error'', PDict [(''message'', PStr ''bad'')])])) 0 1))
   \<and> pending_bundles (snd (submit_bundle (FlashbotsRelay_init\<lparr>session := True\<rparr>)
        [SignedTx ''0x02f8''] 100
        (Inr (PDict [(''error'', PDict [(''message'', PStr ''bad'')])])) 0 1)) = []
   \<and> pending_bundles (snd (submit_bundle (FlashbotsRelay_init\<lparr>session := True\<rparr>)
        [SignedTx ''0x02f8''] 100 (Inr (PDict [(''result'', PStr ''0xabc'')])) 0 1)) \<noteq> []"
  using submit_bundle_atomic [of "FlashbotsRelay_init\<lparr>session := True\<rparr>" "[SignedTx ''0x02f8'']"
       100 "Inr (PDict [(''error'', PDict [(''message'', PStr ''bad'')])])" 0 1]
  by (simp add: submit_bundle_def submit_body_def py_contains_def py_get_def dict_get_def
      FlashbotsRelay_init_def)

subsection \<open>Bundle simulation\<close>




















subsection \<open>Profit analysis\<close>

lemma finalize_body_Inr:
  assumes "finalize_body w3 self profit opt sim = Inr a"
  shows "pa_net_profit_eth a = pa_gross_profit_eth a - pa_gas_cost_eth a
    \<and> pa_roi_percentage a = pa_net_profit_eth a * 100
    \<and> (pa_profitable a \<longleftrightarrow> pa_net_profit_eth a \<ge> min_profit_eth self
          \<and> pa_roi_percentage a \<ge> min_roi_percentage self \<and> pa_simulation_success a)
    \<and> pa_simulation_success a = so_success sim"
  using assms
  by (auto simp: finalize_body_def Let_def split: if_splits sum.splits)

lemma finalize_profit_analysis_props:
  "pa_net_profit_eth (finalize_profit_analysis w3 self profit opt sim)
      = pa_gross_profit_eth (finalize_profit_analysis w3 self profit opt sim)
        - pa_gas_cost_eth (finalize_profit_analysis w3 self profit opt sim)
   \<and> pa_roi_percentage (finalize_profit_analysis w3 self profit opt sim)
      = pa_net_profit_eth (finalize_profit_analysis w3 self profit opt sim) * 100
   \<and> (pa_profitable (finalize_profit_analysis w3 self profit opt sim) \<longleftrightarrow>
        pa_net_profit_eth (finalize_profit_analysis w3 self profit opt sim) \<ge> min_profit_eth self
        \<and> pa_roi_percentage (finalize_profit_analysis w3 self profit opt sim)
            \<ge> min_roi_percentage self
        \<and> pa_simulation_success (finalize_profit_analysis w3 self profit opt sim))
   \<and> (finalize_profit_analysis w3 self profit opt sim = fallback_analysis
        \<or> pa_simulation_success (finalize_profit_analysis w3 self profit opt sim)
            = so_success sim)"
proof (cases "finalize_body w3 self profit opt sim")
  case (Inl e)
  then show ?thesis
    by (simp add: finalize_profit_analysis_def fallback_analysis_def)
next
  case (Inr a)
  from finalize_body_Inr [OF Inr] show ?thesis
    using Inr by (simp add: finalize_profit_analysis_def)
qed

lemma example_analysis:
  "fst (analyze_profitability (\<lambda>s. None) example_web3 example_optimizer
      example_profit_opportunity example_simulation example_gas)
   = \<lparr>pa_gross_profit_eth = 1, pa_gas_cost_eth = 0, pa_net_profit_eth = 1,
      pa_roi_percentage = 100, pa_profitable = True, pa_confidence_score = 0.9,
      pa_risk_level = ''low'', pa_recommended_gas_price_gwei = 50,
      pa_simulation_success = True, pa_execution_probability = 0.9\<rparr>"
  by (simp add: analyze_profitability_def calculate_profitability_def
      calculate_profitability_body_def optimize_gas_price_def optimize_gas_price_body_def
      finalize_profit_analysis_def finalize_body_def example_web3_def
      example_profit_opportunity_def example_simulation_def example_gas_def
      example_optimizer_def ProfitOptimizer_init_def dict_get_def py_float_def py_int_def
      calculate_profit_confidence_def assess_profit_risk_def Let_def)

text \<open>
  C1, as stated, fails: the emitted ROI is not relative to the opportunity's input amount.
  For an expected profit of 1 ETH on 10 ETH put in, the emitted net profit is 1 and the
  emitted ROI is 100, not 1 / 10 * 100 = 10.
\<close>

theorem analyze_profitability_counterexample:
  "map_of example_profit_opportunity ''amount_in'' = Some (PNum 10)
   \<and> pa_net_profit_eth (fst (analyze_profitability (\<lambda>s. None) example_web3
        example_optimizer example_profit_opportunity example_simulation example_gas)) = 1
   \<and> pa_roi_percentage (fst (analyze_profitability (\<lambda>s. None) example_web3
        example_optimizer example_profit_opportunity example_simulation example_gas))
      = 100
   \<and> pa_roi_percentage (fst (analyze_profitability (\<lambda>s. None) example_web3
        example_optimizer example_profit_opportunity example_simulation example_gas))
      \<noteq> pa_net_profit_eth (fst (analyze_profitability (\<lambda>s. None) example_web3
        example_optimizer example_profit_opportunity example_simulation example_gas))
        / 10 * 100"
  by (simp add: example_analysis) (simp add: example_profit_opportunity_def)

text \<open>
  C1, amended. In every analysis that \<open>analyze_profitability\<close> emits, the net profit is
  the gross profit minus the emitted gas cost; the ROI percentage is the net profit times
  100, that is, relative to an input of 1 ETH whatever the opportunity's input amount;
  and the analysis is profitable exactly when the net profit is at least the
  minimum-profit floor, the ROI at least the minimum-ROI floor and the simulation flag
  set. The flag is the simulation's result unless the analysis is the all-zero fallback.
\<close>

theorem analyze_profitability_amended:
  "pa_net_profit_eth (fst (analyze_profitability float_of_str w3 self opportunity sim gas))
      = pa_gross_profit_eth (fst (analyze_profitability float_of_str w3 self opportunity sim gas))
        - pa_gas_cost_eth (fst (analyze_profitability float_of_str w3 self opportunity sim gas))
   \<and> pa_roi_percentage (fst (analyze_profitability float_of_str w3 self opportunity sim gas))
      = pa_net_profit_eth (fst (analyze_profitability float_of_str w3 self opportunity sim gas))
        * 100
   \<and> (pa_profitable (fst (analyze_profitability float_of_str w3 self opportunity sim gas)) \<longleftrightarrow>
        pa_net_profit_eth (fst (analyze_profitability float_of_str w3 self opportunity sim gas))
          \<ge> min_profit_eth self
        \<and> pa_roi_percentage (fst (analyze_profitability float_of_str w3 self opportunity sim gas))
            \<ge> min_roi_percentage self
        \<and> pa_simulation_success
            (fst (analyze_profitability float_of_str w3 self opportunity sim gas)))
   \<and> (fst (analyze_profitability float_of_str w3 self opportunity sim gas) = fallback_analysis
        \<or> pa_simulation_success
             (fst (analyze_profitability float_of_str w3 self opportunity sim gas))
            = so_success sim)"
  unfolding analyze_profitability_def Let_def fst_conv
  by (rule finalize_profit_analysis_props)

theorem analyze_profitability_amended_witness:
  "pa_roi_percentage (fst (analyze_profitability (\<lambda>s. None) example_web3
        example_optimizer example_profit_opportunity example_simulation example_gas))
      = 100
   \<and> pa_profitable (fst (analyze_profitability (\<lambda>s. None) example_web3
        example_optimizer example_profit_opportunity example_simulation example_gas))"
  using analyze_profitability_amended [of "\<lambda>s. None" example_web3 example_optimizer
      example_profit_opportunity example_simulation example_gas]
  by (simp add: example_analysis)

end
